theory Spec2Isabelle
  imports Complex_Main "HOL-Library.Word"
begin

section \<open>Numbers\<close>

text \<open>
  Every numeric value of the program is a TypeScript \<open>number\<close>. The model keeps the
  special values that the operators of the program produce on degenerate inputs (a
  division by zero, the square root or the logarithm of a negative number) and takes
  every other value as the real number it stands for: finite values are not rounded and
  do not overflow, and the sign of a zero is not kept (a zero divisor counts as \<open>+0\<close>).
\<close>

datatype number = Fin real | PInf | NInf | NaN

text \<open>The binary operators \<open>+\<close>, \<open>-\<close>, \<open>*\<close> and \<open>/\<close>.\<close>

fun nadd :: "number \<Rightarrow> number \<Rightarrow> number" where
  "nadd NaN b = NaN"
| "nadd a NaN = NaN"
| "nadd (Fin a) (Fin b) = Fin (a + b)"
| "nadd (Fin a) PInf = PInf"
| "nadd (Fin a) NInf = NInf"
| "nadd PInf (Fin b) = PInf"
| "nadd NInf (Fin b) = NInf"
| "nadd PInf PInf = PInf"
| "nadd NInf NInf = NInf"
| "nadd PInf NInf = NaN"
| "nadd NInf PInf = NaN"

fun nneg :: "number \<Rightarrow> number" where
  "nneg (Fin a) = Fin (- a)"
| "nneg PInf = NInf"
| "nneg NInf = PInf"
| "nneg NaN = NaN"

definition nsub :: "number \<Rightarrow> number \<Rightarrow> number" where
  "nsub a b = nadd a (nneg b)"

fun nmul :: "number \<Rightarrow> number \<Rightarrow> number" where
  "nmul NaN b = NaN"
| "nmul a NaN = NaN"
| "nmul (Fin a) (Fin b) = Fin (a * b)"
| "nmul (Fin a) PInf = (if a = 0 then NaN else if 0 < a then PInf else NInf)"
| "nmul (Fin a) NInf = (if a = 0 then NaN else if 0 < a then NInf else PInf)"
| "nmul PInf (Fin b) = (if b = 0 then NaN else if 0 < b then PInf else NInf)"
| "nmul NInf (Fin b) = (if b = 0 then NaN else if 0 < b then NInf else PInf)"
| "nmul PInf PInf = PInf"
| "nmul NInf NInf = PInf"
| "nmul PInf NInf = NInf"
| "nmul NInf PInf = NInf"

fun ndiv :: "number \<Rightarrow> number \<Rightarrow> number" where
  "ndiv NaN b = NaN"
| "ndiv a NaN = NaN"
| "ndiv (Fin a) (Fin b) =
     (if b = 0 then (if a = 0 then NaN else if 0 < a then PInf else NInf)
      else Fin (a / b))"
| "ndiv (Fin a) PInf = Fin 0"
| "ndiv (Fin a) NInf = Fin 0"
| "ndiv PInf (Fin b) = (if 0 \<le> b then PInf else NInf)"
| "ndiv NInf (Fin b) = (if 0 \<le> b then NInf else PInf)"
| "ndiv PInf PInf = NaN"
| "ndiv NInf NInf = NaN"
| "ndiv PInf NInf = NaN"
| "ndiv NInf PInf = NaN"

text \<open>The comparisons \<open><=\<close>, \<open><\<close> and \<open>>\<close>: false as soon as one side is \<open>NaN\<close>.\<close>

fun nle :: "number \<Rightarrow> number \<Rightarrow> bool" where
  "nle NaN b = False"
| "nle a NaN = False"
| "nle (Fin a) (Fin b) = (a \<le> b)"
| "nle NInf b = True"
| "nle a PInf = True"
| "nle PInf b = False"
| "nle a NInf = False"

fun nlt :: "number \<Rightarrow> number \<Rightarrow> bool" where
  "nlt NaN b = False"
| "nlt a NaN = False"
| "nlt (Fin a) (Fin b) = (a < b)"
| "nlt PInf b = False"
| "nlt a NInf = False"
| "nlt NInf b = True"
| "nlt a PInf = True"

definition ngt :: "number \<Rightarrow> number \<Rightarrow> bool" where
  "ngt a b = nlt b a"

text \<open>\<open>Math.sqrt\<close>, \<open>Math.log\<close>, \<open>Math.min\<close>, \<open>Math.max\<close> and \<open>Math.floor\<close>.\<close>

fun Math_sqrt :: "number \<Rightarrow> number" where
  "Math_sqrt (Fin a) = (if a < 0 then NaN else Fin (sqrt a))"
| "Math_sqrt PInf = PInf"
| "Math_sqrt NInf = NaN"
| "Math_sqrt NaN = NaN"

fun Math_log :: "number \<Rightarrow> number" where
  "Math_log (Fin a) = (if a < 0 then NaN else if a = 0 then NInf else Fin (ln a))"
| "Math_log PInf = PInf"
| "Math_log NInf = NaN"
| "Math_log NaN = NaN"

fun Math_min :: "number \<Rightarrow> number \<Rightarrow> number" where
  "Math_min NaN b = NaN"
| "Math_min a NaN = NaN"
| "Math_min a b = (if nle a b then a else b)"

fun Math_max :: "number \<Rightarrow> number \<Rightarrow> number" where
  "Math_max NaN b = NaN"
| "Math_max a NaN = NaN"
| "Math_max a b = (if nle a b then b else a)"

fun Math_floor :: "number \<Rightarrow> number" where
  "Math_floor (Fin a) = Fin (of_int \<lfloor>a\<rfloor>)"
| "Math_floor a = a"

section \<open>Entities\<close>

text \<open>
  \<open>Food\<close>, \<open>Bot\<close> and \<open>Player\<close> are display objects with a position \<open>pos = {x, y}\<close>
  (the fields \<open>pos_x\<close> and \<open>pos_y\<close>) and the flag \<open>destroyed\<close> that \<open>destroy()\<close> sets.
  Drawing has no effect on these fields and is left out. The food module is not part
  of the sources at hand: \<open>Food\<close> is taken with the fields the player reads, and the
  constant \<open>FOOD_RADIUS\<close> is a parameter of \<open>eatFood\<close>.
\<close>

record Food =
  pos_x :: number
  pos_y :: number
  destroyed :: bool

record Bot = Food +
  radius :: number

record Rectangle =
  width :: number
  height :: number

type_synonym WorldBounds = Rectangle

text \<open>
  The game loop is written against a revision of \<open>Player\<close> that also carries the
  optional byte sequence \<open>id\<close> (the field \<open>player_id\<close>; \<open>None\<close> is \<open>undefined\<close>).
  The private field \<open>velocityMagnitude\<close> is initialised to 10 and never assigned.
\<close>

record Player = Bot +
  player_id :: "8 word list option"
  baseRadius :: number
  worldBounds :: WorldBounds

definition velocityMagnitude :: number where
  "velocityMagnitude = Fin 10"

definition destroy :: "('a Food_scheme) \<Rightarrow> ('a Food_scheme)" where
  "destroy e = e\<lparr>destroyed := True\<rparr>"

section \<open>Growth\<close>

text \<open>
  Each of the three methods assigns the consumer's radius and destroys the target; the
  model returns the two objects after the call.
\<close>

definition eatPlayer :: "Player \<Rightarrow> Player \<Rightarrow> Player \<times> Player" where
  "eatPlayer this playerEaten =
     (this\<lparr>radius := Math_sqrt (nadd (nmul (radius this) (radius this))
                                     (nmul (radius playerEaten) (radius playerEaten)))\<rparr>,
      destroy playerEaten)"

definition eatFood :: "number \<Rightarrow> Player \<Rightarrow> Food \<Rightarrow> Player \<times> Food" where
  "eatFood FOOD_RADIUS this foodEaten =
     (this\<lparr>radius := nmul (Math_sqrt (nadd (nmul (radius this) (radius this))
                                           (nmul FOOD_RADIUS FOOD_RADIUS)))
                           (Fin 1.002)\<rparr>,
      destroy foodEaten)"

definition eatBot :: "Player \<Rightarrow> Bot \<Rightarrow> Player \<times> Bot" where
  "eatBot this botEaten =
     (this\<lparr>radius := nmul (Math_sqrt (nadd (nmul (radius this) (radius this))
                                           (nmul (radius botEaten) (radius botEaten))))
                           (Fin 1.002)\<rparr>,
      destroy botEaten)"

section \<open>Collision predicate\<close>

definition canEatFood :: "Player \<Rightarrow> Food \<Rightarrow> bool" where
  "canEatFood this food =
     (if destroyed food then False
      else
        let playerCenterX = pos_x this;
            playerCenterY = pos_y this;
            foodCenterX = pos_x food;
            foodCenterY = pos_y food;
            dx = nsub foodCenterX playerCenterX;
            dy = nsub foodCenterY playerCenterY;
            distanceSquared = nadd (nmul dx dx) (nmul dy dy);
            radiusSquared = nmul (radius this) (radius this)
        in nle distanceSquared radiusSquared)"

definition canEatBot :: "Player \<Rightarrow> Bot \<Rightarrow> bool" where
  "canEatBot this bot0 =
     (if destroyed bot0 then False
      else
        let playerCenterX = pos_x this;
            playerCenterY = pos_y this;
            foodCenterX = pos_x bot0;
            foodCenterY = pos_y bot0;
            dx = nsub foodCenterX playerCenterX;
            dy = nsub foodCenterY playerCenterY;
            distanceSquared = nadd (nmul dx dx) (nmul dy dy);
            radiusSquared = nmul (radius this) (radius this)
        in nle distanceSquared radiusSquared)"

section \<open>Movement\<close>

definition calculateMaxDistance :: "Rectangle \<Rightarrow> number" where
  "calculateMaxDistance screen =
     Math_sqrt (nadd (nmul (ndiv (width screen) (Fin 2)) (ndiv (width screen) (Fin 2)))
                     (nmul (ndiv (height screen) (Fin 2)) (ndiv (height screen) (Fin 2))))"

definition moveTowards :: "Player \<Rightarrow> Rectangle \<Rightarrow> number \<Rightarrow> number \<Rightarrow> Player" where
  "moveTowards this screen x y =
     (let dx = nsub x (ndiv (width screen) (Fin 2));
          dy = nsub y (ndiv (height screen) (Fin 2));
          delta = Math_sqrt (nadd (nmul dx dx) (nmul dy dy));
          maxDistance = calculateMaxDistance screen;
          normalizedDistance = Math_min (nmul (ndiv delta maxDistance) (Fin 2)) (Fin 1);
          velocity = ndiv (nmul normalizedDistance velocityMagnitude)
                          (Math_sqrt (ndiv (radius this) (Fin 20)))
      in if ngt delta (Fin 3) then
           let x1 = nadd (pos_x this) (nmul (ndiv dx delta) velocity);
               y1 = nadd (pos_y this) (nmul (ndiv dy delta) velocity);
               x2 = Math_max (Fin 0) (Math_min x1 (width (worldBounds this)));
               y2 = Math_max (Fin 0) (Math_min y1 (height (worldBounds this)))
           in this\<lparr>pos_x := x2, pos_y := y2\<rparr>
         else this)"

section \<open>Camera\<close>

definition lerp :: "number \<Rightarrow> number \<Rightarrow> number \<Rightarrow> number" where
  "lerp start end0 t = nadd (nmul start (nsub (Fin 1) t)) (nmul end0 t)"

text \<open>The target zoom that the game loop computes from the player's radius.\<close>

definition zoom :: "number \<Rightarrow> number" where
  "zoom r =
     (if nlt r (Fin 80)
      then Math_max (Fin 0.1) (Math_min (Fin 1) (ndiv (Fin 50) (Math_log r)))
      else Math_max (Fin 0.1) (Math_min (Fin 1) (ndiv (Fin 100) (nsub r (Fin 80)))))"

section \<open>Game loop\<close>

text \<open>
  The network manager is not part of the sources at hand. The loop reads its flag
  \<open>isConnected()\<close> and its collections \<open>foods\<close> and \<open>players\<close>, and calls its \<open>send\<close>
  methods; \<open>sent\<close> is the log of these calls, in order, with their arguments.
\<close>

datatype message =
    SendMovement number number
  | SendEatFood number number number
  | SendEatPlayer "8 word list" number

record NetworkManager =
  connected :: bool
  foods :: "Food list"
  players :: "Player list"
  sent :: "message list"

record Container =
  scale_x :: number
  scale_y :: number
  position_x :: number
  position_y :: number

record Game =
  player :: Player
  network :: NetworkManager
  world :: Container

text \<open>
  \<open>forEach\<close> runs a callback over a collection in order; the callback changes the
  objects it captures (here the local player and the log) and the element it is given.
\<close>

fun forEach :: "('s \<Rightarrow> 'a \<Rightarrow> 's \<times> 'a) \<Rightarrow> 's \<Rightarrow> 'a list \<Rightarrow> 's \<times> 'a list" where
  "forEach cb s [] = (s, [])"
| "forEach cb s (e # es) =
     (case cb s e of (s1, e') \<Rightarrow>
        (case forEach cb s1 es of (s2, es') \<Rightarrow> (s2, e' # es')))"

definition foods_callback ::
    "number \<Rightarrow> Player \<times> message list \<Rightarrow> Food \<Rightarrow> (Player \<times> message list) \<times> Food" where
  "foods_callback FOOD_RADIUS s f =
     (case s of (pl, out) \<Rightarrow>
        if canEatFood pl f then
          (case eatFood FOOD_RADIUS pl f of (pl', f') \<Rightarrow>
             ((pl', out @ [SendEatFood (Math_floor (pos_x f')) (Math_floor (pos_y f'))
                                       (Math_floor (radius pl'))]), f'))
        else ((pl, out), f))"

text \<open>
  \<open>canEatPlayer\<close> belongs to the revision of \<open>Player\<close> the loop is written against and
  is a parameter here: any predicate on the local player and a remote player.
\<close>

definition players_callback ::
    "(Player \<Rightarrow> Player \<Rightarrow> bool) \<Rightarrow> Player \<times> message list \<Rightarrow> Player
       \<Rightarrow> (Player \<times> message list) \<times> Player" where
  "players_callback canEatPlayer s p =
     (case s of (pl, out) \<Rightarrow>
        if canEatPlayer pl p then
          (case player_id p of
             Some i \<Rightarrow>
               (case eatPlayer pl p of (pl', p') \<Rightarrow>
                  ((pl', out @ [SendEatPlayer i (radius pl)]), destroy p'))
           | None \<Rightarrow> ((pl, out), destroy p))
        else ((pl, out), p))"

definition tick ::
    "number \<Rightarrow> (Player \<Rightarrow> Player \<Rightarrow> bool) \<Rightarrow> Rectangle \<Rightarrow> number \<Rightarrow> number \<Rightarrow> Game \<Rightarrow> Game" where
  "tick FOOD_RADIUS canEatPlayer screen pointer_x pointer_y g =
     (let net = network g;
          s0 = (if connected net
                then (let pl = moveTowards (player g) screen pointer_x pointer_y
                      in (pl, sent net @ [SendMovement (pos_x pl) (pos_y pl)]))
                else (player g, sent net))
      in case forEach (foods_callback FOOD_RADIUS) s0 (foods net) of (s1, foods') \<Rightarrow>
         case forEach (players_callback canEatPlayer) s1 (players net) of
           ((pl, out), players') \<Rightarrow>
             let z = zoom (radius pl);
                 sx = lerp (scale_x (world g)) z (Fin 0.05);
                 sy = lerp (scale_y (world g)) z (Fin 0.05);
                 wx = lerp (position_x (world g))
                        (nsub (ndiv (width screen) (Fin 2)) (nmul (pos_x pl) sx)) (Fin 0.05);
                 wy = lerp (position_y (world g))
                        (nsub (ndiv (height screen) (Fin 2)) (nmul (pos_y pl) sy)) (Fin 0.05)
             in \<lparr>player = pl,
                 network = net\<lparr>foods := foods', players := players', sent := out\<rparr>,
                 world = \<lparr>scale_x = sx, scale_y = sy, position_x = wx, position_y = wy\<rparr>\<rparr>)"

section \<open>Notions used by the statements\<close>

text \<open>
  The value of the local constant \<open>delta\<close> of \<open>moveTowards\<close>: the distance of the
  pointer from the centre of the viewport.
\<close>

definition moveTowards_delta :: "Rectangle \<Rightarrow> number \<Rightarrow> number \<Rightarrow> number" where
  "moveTowards_delta screen x y =
     (let dx = nsub x (ndiv (width screen) (Fin 2));
          dy = nsub y (ndiv (height screen) (Fin 2))
      in Math_sqrt (nadd (nmul dx dx) (nmul dy dy)))"

text \<open>
  A player lies within its world bounds: both coordinates compare, as numbers of the
  program, between 0 and the bound (so a \<open>NaN\<close> coordinate is outside).
\<close>

definition in_bounds :: "Player \<Rightarrow> bool" where
  "in_bounds p =
     (nle (Fin 0) (pos_x p) \<and> nle (pos_x p) (width (worldBounds p)) \<and>
      nle (Fin 0) (pos_y p) \<and> nle (pos_y p) (height (worldBounds p)))"

text \<open>
  The specification's \<open>clamp(v, lo, hi)\<close>, written with the program's comparisons, to be
  compared with the \<open>Math.max(lo, Math.min(hi, v))\<close> of the game loop.
\<close>

definition spec_clamp :: "number \<Rightarrow> number \<Rightarrow> number \<Rightarrow> number" where
  "spec_clamp v lo hi = (if nlt v lo then lo else if ngt v hi then hi else v)"

text \<open>
  Modelled from the spec: \<open>Player.canEatPlayer\<close> is not in the sources at hand. The
  specification gives one collision predicate for every kind of target (false on a
  destroyed target, otherwise the target's centre within the consumer's disk). It
  stands for the parameter \<open>canEatPlayer\<close> in the concrete runs of the game loop below;
  the general statements hold for every predicate.
\<close>

definition canEatPlayer_spec :: "Player \<Rightarrow> Player \<Rightarrow> bool" where
  "canEatPlayer_spec this p =
     (if destroyed p then False
      else
        let dx = nsub (pos_x p) (pos_x this);
            dy = nsub (pos_y p) (pos_y this)
        in nle (nadd (nmul dx dx) (nmul dy dy)) (nmul (radius this) (radius this)))"

text \<open>
  The value of the local constant \<open>normalizedDistance\<close> of \<open>moveTowards\<close> for a finite
  viewport \<open>w\<close> by \<open>h\<close> and a finite pointer \<open>(x, y)\<close>. For a viewport of size 0 by 0
  the quotient \<open>delta / maxDistance\<close> of the program is \<open>+Infinity\<close> (or \<open>NaN\<close> when
  \<open>delta\<close> is 0 as well, a case inside the dead zone), and its minimum with 1 is 1.
\<close>

definition normalized_distance :: "real \<Rightarrow> real \<Rightarrow> real \<Rightarrow> real \<Rightarrow> real" where
  "normalized_distance w h x y =
     (if w = 0 \<and> h = 0 then 1
      else min (sqrt ((x - w / 2)\<^sup>2 + (y - h / 2)\<^sup>2) / sqrt ((w / 2)\<^sup>2 + (h / 2)\<^sup>2) * 2) 1)"

text \<open>
  A player for the concrete runs: at (100, 100) with the reference radius 20, in the
  world of 10000 by 10000 that the game creates.
\<close>

definition example_player :: Player where
  "example_player =
     \<lparr>pos_x = Fin 100, pos_y = Fin 100, destroyed = False, radius = Fin 20,
      player_id = None, baseRadius = Fin 20,
      worldBounds = \<lparr>width = Fin 10000, height = Fin 10000\<rparr>\<rparr>"

text \<open>
  The blocks of the game loop, for the statements about one of them: the local player
  and the log after the movement block, after the scan of the foods, and after the scan
  of the players (each scan with the collection it leaves).
\<close>

definition after_movement :: "Rectangle \<Rightarrow> number \<Rightarrow> number \<Rightarrow> Game \<Rightarrow> Player \<times> message list" where
  "after_movement screen pointer_x pointer_y g =
     (if connected (network g)
      then (let pl = moveTowards (player g) screen pointer_x pointer_y
            in (pl, sent (network g) @ [SendMovement (pos_x pl) (pos_y pl)]))
      else (player g, sent (network g)))"

definition after_foods ::
    "number \<Rightarrow> Rectangle \<Rightarrow> number \<Rightarrow> number \<Rightarrow> Game \<Rightarrow> (Player \<times> message list) \<times> Food list" where
  "after_foods FOOD_RADIUS screen pointer_x pointer_y g =
     forEach (foods_callback FOOD_RADIUS) (after_movement screen pointer_x pointer_y g)
       (foods (network g))"

definition after_players ::
    "number \<Rightarrow> (Player \<Rightarrow> Player \<Rightarrow> bool) \<Rightarrow> Rectangle \<Rightarrow> number \<Rightarrow> number \<Rightarrow> Game
       \<Rightarrow> (Player \<times> message list) \<times> Player list" where
  "after_players FOOD_RADIUS canEatPlayer screen pointer_x pointer_y g =
     forEach (players_callback canEatPlayer)
       (fst (after_foods FOOD_RADIUS screen pointer_x pointer_y g)) (players (network g))"

text \<open>The calls of \<open>sendMovement\<close> in a log.\<close>

fun is_SendMovement :: "message \<Rightarrow> bool" where
  "is_SendMovement (SendMovement x y) = True"
| "is_SendMovement m = False"

text \<open>
  Two remote players at the place of the example player, of radius 15, one without and
  one with an id, and two games: one connected, with the second remote player, and one
  not connected, with a local player of radius 12 and one food at its place.
\<close>

definition remote_without_id :: Player where
  "remote_without_id =
     \<lparr>pos_x = Fin 100, pos_y = Fin 100, destroyed = False, radius = Fin 15,
      player_id = None, baseRadius = Fin 15,
      worldBounds = \<lparr>width = Fin 10000, height = Fin 10000\<rparr>\<rparr>"

definition remote_with_id :: Player where
  "remote_with_id =
     \<lparr>pos_x = Fin 100, pos_y = Fin 100, destroyed = False, radius = Fin 15,
      player_id = Some [1, 2, 3], baseRadius = Fin 15,
      worldBounds = \<lparr>width = Fin 10000, height = Fin 10000\<rparr>\<rparr>"

definition online_game :: Game where
  "online_game =
     \<lparr>player = example_player,
      network = \<lparr>connected = True, foods = [], players = [remote_with_id], sent = []\<rparr>,
      world = \<lparr>scale_x = Fin 1, scale_y = Fin 1, position_x = Fin 0, position_y = Fin 0\<rparr>\<rparr>"

definition offline_game :: Game where
  "offline_game =
     \<lparr>player = example_player\<lparr>radius := Fin 12\<rparr>,
      network = \<lparr>connected = False,
                 foods = [\<lparr>pos_x = Fin 100, pos_y = Fin 100, destroyed = False\<rparr>],
                 players = [], sent = []\<rparr>,
      world = \<lparr>scale_x = Fin 1, scale_y = Fin 1, position_x = Fin 0, position_y = Fin 0\<rparr>\<rparr>"

section \<open>Arithmetic on finite numbers\<close>

lemma nsub_Fin [simp]: "nsub (Fin a) (Fin b) = Fin (a - b)"
  by (simp add: nsub_def)

lemma ngt_Fin [simp]: "ngt (Fin a) (Fin b) = (b < a)"
  by (simp add: ngt_def)

lemma Math_min_Fin [simp]: "Math_min (Fin a) (Fin b) = Fin (min a b)"
  by (simp add: min_def)

lemma Math_max_Fin [simp]: "Math_max (Fin a) (Fin b) = Fin (max a b)"
  by (simp add: max_def)

lemma sumsq_not_neg [simp]: "\<not> a * a + b * b < (0::real)"
  by (simp add: not_less)

lemma sqrt_169: "sqrt 169 = 13"
  using real_sqrt_abs [of 13] by simp

lemma sqrt_25: "sqrt 25 = 5"
  using real_sqrt_abs [of 5] by simp

lemma sqrt_625: "sqrt 625 = 25"
  using real_sqrt_abs [of 25] by simp

lemma sqrt_9: "sqrt 9 = 3"
  using real_sqrt_abs [of 3] by simp

lemma sqrt_62500: "sqrt 62500 = 250"
  using real_sqrt_abs [of 250] by simp

lemma sqrt_250000: "sqrt 250000 = 500"
  using real_sqrt_abs [of 500] by simp

lemma nle_not_ngt: "nle a b \<Longrightarrow> \<not> ngt a b"
  by (cases a; cases b) (simp_all add: ngt_def)

lemma example_player_simps [simp]:
  "pos_x example_player = Fin 100" "pos_y example_player = Fin 100"
  "radius example_player = Fin 20"
  "worldBounds example_player = \<lparr>width = Fin 10000, height = Fin 10000\<rparr>"
  by (simp_all add: example_player_def)

section \<open>Growth: the three consumption methods\<close>

text \<open>
  Claim C1, as amended. The claim gives the bonus factor 1.002 to a consumed bot or
  player and none to consumed food. In the program, for a consumer of finite radius
  \<open>r1\<close>: \<open>eatFood\<close> sets the radius to \<open>sqrt (r1\<^sup>2 + FOOD_RADIUS\<^sup>2) * 1.002\<close> (the bonus is
  applied to food too, and the radius added is the constant, not a field of the food
  eaten), and \<open>eatBot\<close> sets it to \<open>sqrt (r1\<^sup>2 + r2\<^sup>2) * 1.002\<close>. Each of the two destroys
  its target. The statement says nothing of the factor in \<open>eatPlayer\<close>.
\<close>

theorem growth_radius:
  "radius (fst (eatFood (Fin fr) (this\<lparr>radius := Fin r1\<rparr>) food))
     = Fin (sqrt (r1\<^sup>2 + fr\<^sup>2) * 1.002)
   \<and> destroyed (snd (eatFood (Fin fr) (this\<lparr>radius := Fin r1\<rparr>) food))
   \<and> radius (fst (eatBot (this\<lparr>radius := Fin r1\<rparr>) (b\<lparr>radius := Fin r2\<rparr>)))
     = Fin (sqrt (r1\<^sup>2 + r2\<^sup>2) * 1.002)
   \<and> destroyed (snd (eatBot (this\<lparr>radius := Fin r1\<rparr>) (b\<lparr>radius := Fin r2\<rparr>)))"
  by (simp add: eatFood_def eatBot_def destroy_def power2_eq_square)

text \<open>
  Claim C1 as stated fails: a player of radius 12 that eats food, with \<open>FOOD_RADIUS\<close>
  5, has radius \<open>13 * 1.002\<close> and not \<open>sqrt (12\<^sup>2 + 5\<^sup>2) = 13\<close>; the same player eating a
  player of radius 5 has radius 13 and not \<open>13 * 1.002\<close>, where the two sibling methods
  \<open>eatFood\<close> and \<open>eatBot\<close> both apply the factor.
\<close>

theorem growth_bonus_counterexample:
  "radius (fst (eatFood (Fin 5)
      \<lparr>pos_x = Fin 0, pos_y = Fin 0, destroyed = False, radius = Fin 12,
       player_id = None, baseRadius = Fin 12,
       worldBounds = \<lparr>width = Fin 10000, height = Fin 10000\<rparr>\<rparr>
      \<lparr>pos_x = Fin 0, pos_y = Fin 0, destroyed = False\<rparr>))
     \<noteq> Fin (sqrt (12\<^sup>2 + 5\<^sup>2))
   \<and> radius (fst (eatPlayer
      \<lparr>pos_x = Fin 0, pos_y = Fin 0, destroyed = False, radius = Fin 12,
       player_id = None, baseRadius = Fin 12,
       worldBounds = \<lparr>width = Fin 10000, height = Fin 10000\<rparr>\<rparr>
      \<lparr>pos_x = Fin 0, pos_y = Fin 0, destroyed = False, radius = Fin 5,
       player_id = Some [1, 2, 3], baseRadius = Fin 5,
       worldBounds = \<lparr>width = Fin 10000, height = Fin 10000\<rparr>\<rparr>))
     \<noteq> Fin (sqrt (12\<^sup>2 + 5\<^sup>2) * 1.002)"
  by (simp add: eatFood_def eatPlayer_def sqrt_169)

section \<open>Collision predicate\<close>

text \<open>
  Claim C3. \<open>canEatFood\<close> and \<open>canEatBot\<close> are false on a destroyed target and otherwise
  hold exactly when the squared distance of the two centres is at most the consumer's
  squared radius, in the program's arithmetic (first two conjuncts) and, for finite
  coordinates, over the reals (last two). The target's radius takes no part: the
  predicate on a bot is the same whatever radius \<open>tr\<close> the bot has. Both are functions
  of their two arguments to a truth value and change nothing.
\<close>

theorem collision_predicate:
  "canEatFood this f =
     (\<not> destroyed f \<and>
      nle (nadd (nmul (nsub (pos_x f) (pos_x this)) (nsub (pos_x f) (pos_x this)))
                (nmul (nsub (pos_y f) (pos_y this)) (nsub (pos_y f) (pos_y this))))
          (nmul (radius this) (radius this)))
   \<and> canEatBot this b =
     (\<not> destroyed b \<and>
      nle (nadd (nmul (nsub (pos_x b) (pos_x this)) (nsub (pos_x b) (pos_x this)))
                (nmul (nsub (pos_y b) (pos_y this)) (nsub (pos_y b) (pos_y this))))
          (nmul (radius this) (radius this)))
   \<and> canEatFood (this\<lparr>pos_x := Fin px, pos_y := Fin py, radius := Fin r\<rparr>)
                  (f\<lparr>pos_x := Fin tx, pos_y := Fin ty\<rparr>)
       = (\<not> destroyed f \<and> (tx - px)\<^sup>2 + (ty - py)\<^sup>2 \<le> r\<^sup>2)
   \<and> canEatBot (this\<lparr>pos_x := Fin px, pos_y := Fin py, radius := Fin r\<rparr>)
                 (b\<lparr>pos_x := Fin tx, pos_y := Fin ty, radius := tr\<rparr>)
       = (\<not> destroyed b \<and> (tx - px)\<^sup>2 + (ty - py)\<^sup>2 \<le> r\<^sup>2)"
  by (simp add: canEatFood_def canEatBot_def Let_def power2_eq_square)

section \<open>Movement: dead zone, clamp and speed\<close>

lemma delta_Fin:
  "moveTowards_delta \<lparr>width = Fin w, height = Fin h\<rparr> (Fin x) (Fin y)
     = Fin (sqrt ((x - w / 2)\<^sup>2 + (y - h / 2)\<^sup>2))"
  by (simp add: moveTowards_delta_def Let_def power2_eq_square)

lemma maxDistance_Fin:
  "calculateMaxDistance \<lparr>width = Fin w, height = Fin h\<rparr>
     = Fin (sqrt ((w / 2)\<^sup>2 + (h / 2)\<^sup>2))"
  by (simp add: calculateMaxDistance_def power2_eq_square not_less)

lemma maxDistance_zero_iff:
  "sqrt ((w / 2)\<^sup>2 + (h / 2)\<^sup>2) = 0 \<longleftrightarrow> w = 0 \<and> h = 0" for w h :: real
  by (simp add: sum_power2_eq_zero_iff)

lemma normalizedDistance_Fin:
  assumes "0 < d"
  shows "Math_min (nmul (ndiv (Fin d) (Fin m)) (Fin 2)) (Fin 1)
           = Fin (if m = 0 then 1 else min (d / m * 2) 1)"
  using assms by simp

lemma velocity_Fin:
  assumes "0 < r"
  shows "ndiv (nmul (Fin n) velocityMagnitude) (Math_sqrt (ndiv (Fin r) (Fin 20)))
           = Fin (n * 10 / sqrt (r / 20))"
  using assms by (simp add: velocityMagnitude_def)

lemma moveTowards_alt:
  "moveTowards this screen x y =
     (if ngt (moveTowards_delta screen x y) (Fin 3) then
        this\<lparr>pos_x := Math_max (Fin 0) (Math_min
                 (nadd (pos_x this)
                    (nmul (ndiv (nsub x (ndiv (width screen) (Fin 2))) (moveTowards_delta screen x y))
                       (ndiv (nmul (Math_min (nmul (ndiv (moveTowards_delta screen x y)
                                                         (calculateMaxDistance screen)) (Fin 2)) (Fin 1))
                                   velocityMagnitude)
                             (Math_sqrt (ndiv (radius this) (Fin 20))))))
                 (width (worldBounds this))),
             pos_y := Math_max (Fin 0) (Math_min
                 (nadd (pos_y this)
                    (nmul (ndiv (nsub y (ndiv (height screen) (Fin 2))) (moveTowards_delta screen x y))
                       (ndiv (nmul (Math_min (nmul (ndiv (moveTowards_delta screen x y)
                                                         (calculateMaxDistance screen)) (Fin 2)) (Fin 1))
                                   velocityMagnitude)
                             (Math_sqrt (ndiv (radius this) (Fin 20))))))
                 (height (worldBounds this)))\<rparr>
      else this)"
  by (simp add: moveTowards_def moveTowards_delta_def Let_def)

lemma moveTowards_Fin:
  assumes "pos_x this = Fin px" "pos_y this = Fin py" "radius this = Fin r" "0 < r"
    and "worldBounds this = \<lparr>width = Fin W, height = Fin H\<rparr>"
    and "3 < sqrt ((x - w / 2)\<^sup>2 + (y - h / 2)\<^sup>2)"
  shows "moveTowards this \<lparr>width = Fin w, height = Fin h\<rparr> (Fin x) (Fin y)
    = this\<lparr>pos_x := Fin (max 0 (min (px + (x - w / 2) / sqrt ((x - w / 2)\<^sup>2 + (y - h / 2)\<^sup>2)
                                          * (normalized_distance w h x y * 10 / sqrt (r / 20))) W)),
           pos_y := Fin (max 0 (min (py + (y - h / 2) / sqrt ((x - w / 2)\<^sup>2 + (y - h / 2)\<^sup>2)
                                          * (normalized_distance w h x y * 10 / sqrt (r / 20))) H))\<rparr>"
proof -
  define d where "d = sqrt ((x - w / 2)\<^sup>2 + (y - h / 2)\<^sup>2)"
  define m where "m = sqrt ((w / 2)\<^sup>2 + (h / 2)\<^sup>2)"
  define v where "v = normalized_distance w h x y * 10 / sqrt (r / 20)"
  have dpos: "0 < d" and d3: "3 < d"
    using assms(6) unfolding d_def by linarith+
  have delta: "moveTowards_delta \<lparr>width = Fin w, height = Fin h\<rparr> (Fin x) (Fin y) = Fin d"
    by (simp add: delta_Fin d_def)
  have maxd: "calculateMaxDistance \<lparr>width = Fin w, height = Fin h\<rparr> = Fin m"
    by (simp add: maxDistance_Fin m_def)
  have n: "(if m = 0 then 1 else min (d / m * 2) 1) = normalized_distance w h x y"
    unfolding normalized_distance_def d_def m_def maxDistance_zero_iff ..
  have vel: "ndiv (nmul (Math_min (nmul (ndiv (Fin d) (Fin m)) (Fin 2)) (Fin 1)) velocityMagnitude)
                  (Math_sqrt (ndiv (Fin r) (Fin 20))) = Fin v"
    unfolding normalizedDistance_Fin [OF dpos] n velocity_Fin [OF assms(4)] v_def ..
  have sx: "Math_max (Fin 0) (Math_min (nadd (Fin px)
               (nmul (ndiv (nsub (Fin x) (ndiv (Fin w) (Fin 2))) (Fin d)) (Fin v))) (Fin W))
            = Fin (max 0 (min (px + (x - w / 2) / d * v) W))"
    using dpos by simp
  have sy: "Math_max (Fin 0) (Math_min (nadd (Fin py)
               (nmul (ndiv (nsub (Fin y) (ndiv (Fin h) (Fin 2))) (Fin d)) (Fin v))) (Fin H))
            = Fin (max 0 (min (py + (y - h / 2) / d * v) H))"
    using dpos by simp
  have "moveTowards this \<lparr>width = Fin w, height = Fin h\<rparr> (Fin x) (Fin y)
         = this\<lparr>pos_x := Fin (max 0 (min (px + (x - w / 2) / d * v) W)),
                pos_y := Fin (max 0 (min (py + (y - h / 2) / d * v) H))\<rparr>"
    unfolding moveTowards_alt delta maxd assms(1,2,3,5) Rectangle.select_convs vel sx sy
    using d3 by simp
  then show ?thesis
    unfolding d_def v_def .
qed

lemma scaled_unit_norm:
  fixes a b s :: real
  assumes "0 < sqrt (a\<^sup>2 + b\<^sup>2)" "0 \<le> s"
  shows "sqrt ((a / sqrt (a\<^sup>2 + b\<^sup>2) * s)\<^sup>2 + (b / sqrt (a\<^sup>2 + b\<^sup>2) * s)\<^sup>2) = s"
proof -
  define d where "d = sqrt (a\<^sup>2 + b\<^sup>2)"
  have dpos: "0 < d" using assms(1) by (simp add: d_def)
  have d2: "a\<^sup>2 + b\<^sup>2 = d\<^sup>2"
    by (simp add: d_def)
  have "(a / d * s)\<^sup>2 + (b / d * s)\<^sup>2 = (a\<^sup>2 + b\<^sup>2) / d\<^sup>2 * s\<^sup>2"
    by (simp add: power_mult_distrib power_divide add_divide_distrib distrib_right)
  also have "\<dots> = s\<^sup>2"
    using dpos by (simp add: d2)
  finally have "sqrt ((a / d * s)\<^sup>2 + (b / d * s)\<^sup>2) = s"
    using assms(2) by simp
  then show ?thesis by (simp only: d_def)
qed

lemma normalized_distance_nonneg: "0 \<le> normalized_distance w h x y"
  by (simp add: normalized_distance_def)

text \<open>
  Claim C6. When the distance \<open>delta\<close> of the pointer from the centre of the viewport
  compares \<open><= 3\<close>, \<open>moveTowards\<close> returns the player as it was: the position and every
  other field are unchanged, for every radius, viewport and position (also for values
  that are not finite).
\<close>

theorem dead_zone:
  "nle (moveTowards_delta screen x y) (Fin 3) \<Longrightarrow> moveTowards this screen x y = this"
  by (simp add: moveTowards_def moveTowards_delta_def Let_def nle_not_ngt)

theorem dead_zone_witness:
  "nle (moveTowards_delta \<lparr>width = Fin 800, height = Fin 600\<rparr> (Fin 400) (Fin 303)) (Fin 3)
   \<and> moveTowards example_player \<lparr>width = Fin 800, height = Fin 600\<rparr> (Fin 400) (Fin 303) = example_player"
proof -
  have h: "nle (moveTowards_delta \<lparr>width = Fin 800, height = Fin 600\<rparr> (Fin 400) (Fin 303)) (Fin 3)"
    by (simp add: delta_Fin sqrt_9)
  from h dead_zone [OF h, of example_player] show ?thesis by simp
qed

text \<open>
  Claim C5, as amended. The clamp of \<open>moveTowards\<close> stands inside the branch
  \<open>delta > 3\<close>. For finite arguments, a radius above 0 and world bounds of at least 0,
  the player lies within its world bounds after the call when the pointer is outside
  the dead zone, or when the player was within the bounds before the call.
\<close>

theorem moveTowards_in_bounds:
  assumes "pos_x this = Fin px" "pos_y this = Fin py" "radius this = Fin r" "0 < r"
    and "worldBounds this = \<lparr>width = Fin W, height = Fin H\<rparr>" "0 \<le> W" "0 \<le> H"
    and "3 < sqrt ((x - w / 2)\<^sup>2 + (y - h / 2)\<^sup>2)
         \<or> (0 \<le> px \<and> px \<le> W \<and> 0 \<le> py \<and> py \<le> H)"
  shows "in_bounds (moveTowards this \<lparr>width = Fin w, height = Fin h\<rparr> (Fin x) (Fin y))"
proof (cases "3 < sqrt ((x - w / 2)\<^sup>2 + (y - h / 2)\<^sup>2)")
  case True
  from moveTowards_Fin [OF assms(1-5) True] assms(5-7) show ?thesis
    by (simp add: in_bounds_def)
next
  case False
  then have "nle (moveTowards_delta \<lparr>width = Fin w, height = Fin h\<rparr> (Fin x) (Fin y)) (Fin 3)"
    by (simp add: delta_Fin)
  then have "moveTowards this \<lparr>width = Fin w, height = Fin h\<rparr> (Fin x) (Fin y) = this"
    by (simp add: moveTowards_def moveTowards_delta_def Let_def nle_not_ngt)
  with False assms show ?thesis
    by (simp add: in_bounds_def)
qed

theorem moveTowards_in_bounds_witness:
  "pos_x example_player = Fin 100 \<and> pos_y example_player = Fin 100 \<and> radius example_player = Fin 20 \<and> (0::real) < 20
   \<and> worldBounds example_player = \<lparr>width = Fin 10000, height = Fin 10000\<rparr>
   \<and> (0::real) \<le> 10000
   \<and> 3 < sqrt ((550 - 800 / 2)\<^sup>2 + (500 - 600 / 2)\<^sup>2 :: real)
   \<and> in_bounds (moveTowards example_player \<lparr>width = Fin 800, height = Fin 600\<rparr> (Fin 550) (Fin 500))"
proof -
  have d: "3 < sqrt ((550 - 800 / 2)\<^sup>2 + (500 - 600 / 2)\<^sup>2 :: real)"
    by (simp add: sqrt_62500)
  from d moveTowards_in_bounds [of example_player 100 100 20 10000 10000 550 800 500 600]
  show ?thesis by simp
qed

text \<open>
  Claim C5 as stated fails: a player that starts at \<open>x = -5\<close>, outside the bounds, with
  the pointer at the centre of an 800 by 600 viewport (\<open>delta = 0\<close>) is not moved and not
  clamped, and is outside the bounds after the call.
\<close>

theorem moveTowards_out_of_bounds_counterexample:
  "\<not> in_bounds (moveTowards (example_player\<lparr>pos_x := Fin (- 5)\<rparr>)
        \<lparr>width = Fin 800, height = Fin 600\<rparr> (Fin 400) (Fin 300))"
  by (simp add: moveTowards_def Let_def in_bounds_def example_player_def)

text \<open>
  The radius above 0 is needed: at radius 0 the velocity is \<open>+Infinity\<close>, and with the
  pointer straight below the centre the step \<open>0 * Infinity\<close> makes the coordinate
  \<open>NaN\<close>, which the clamp keeps.
\<close>

lemma moveTowards_radius_zero:
  "pos_x (moveTowards (example_player\<lparr>radius := Fin 0\<rparr>)
        \<lparr>width = Fin 800, height = Fin 600\<rparr> (Fin 400) (Fin 500)) = NaN"
  by (simp add: moveTowards_def Let_def example_player_def calculateMaxDistance_def velocityMagnitude_def)

text \<open>
  Claim C7. For finite arguments, a radius \<open>r\<close> above 0 and a pointer outside the dead
  zone, \<open>moveTowards\<close> adds to the position the vector \<open>(dx / delta, dy / delta) * speed\<close>
  and then clamps, where \<open>speed = min (delta / maxDistance * 2) 1 * 10 / sqrt (r / 20)\<close>,
  \<open>maxDistance\<close> is the half-diagonal of the viewport and 10 is \<open>velocityMagnitude\<close>; the
  vector added has the magnitude \<open>speed\<close>. At radius 20 with the normalized distance
  saturated at 1 the speed is \<open>velocityMagnitude\<close>.
\<close>

theorem moveTowards_speed:
  assumes "pos_x this = Fin px" "pos_y this = Fin py" "radius this = Fin r" "0 < r"
    and "worldBounds this = \<lparr>width = Fin W, height = Fin H\<rparr>"
    and "3 < sqrt ((x - w / 2)\<^sup>2 + (y - h / 2)\<^sup>2)"
  shows
    "let delta = sqrt ((x - w / 2)\<^sup>2 + (y - h / 2)\<^sup>2);
         maxDistance = sqrt ((w / 2)\<^sup>2 + (h / 2)\<^sup>2);
         normalizedDistance = (if w = 0 \<and> h = 0 then 1 else min (delta / maxDistance * 2) 1);
         speed = normalizedDistance * 10 / sqrt (r / 20);
         this' = moveTowards this \<lparr>width = Fin w, height = Fin h\<rparr> (Fin x) (Fin y)
     in velocityMagnitude = Fin 10
        \<and> pos_x this' = Fin (max 0 (min (px + (x - w / 2) / delta * speed) W))
        \<and> pos_y this' = Fin (max 0 (min (py + (y - h / 2) / delta * speed) H))
        \<and> sqrt (((x - w / 2) / delta * speed)\<^sup>2 + ((y - h / 2) / delta * speed)\<^sup>2) = speed
        \<and> (r = 20 \<and> normalizedDistance = 1 \<longrightarrow> Fin speed = velocityMagnitude)"
proof -
  have dpos: "0 < sqrt ((x - w / 2)\<^sup>2 + (y - h / 2)\<^sup>2)"
    using assms(6) by linarith
  have sp0: "0 \<le> normalized_distance w h x y * 10 / sqrt (r / 20)"
    using normalized_distance_nonneg [of w h x y] assms(4) by simp
  note mv = moveTowards_Fin [OF assms]
  note norm = scaled_unit_norm [OF dpos sp0]
  show ?thesis
    unfolding Let_def normalized_distance_def [symmetric]
  proof (intro conjI impI)
    show "velocityMagnitude = Fin 10" by (simp add: velocityMagnitude_def)
    show "pos_x (moveTowards this \<lparr>width = Fin w, height = Fin h\<rparr> (Fin x) (Fin y))
          = Fin (max 0 (min (px + (x - w / 2) / sqrt ((x - w / 2)\<^sup>2 + (y - h / 2)\<^sup>2)
               * (normalized_distance w h x y * 10 / sqrt (r / 20))) W))"
      by (simp only: mv) simp
    show "pos_y (moveTowards this \<lparr>width = Fin w, height = Fin h\<rparr> (Fin x) (Fin y))
          = Fin (max 0 (min (py + (y - h / 2) / sqrt ((x - w / 2)\<^sup>2 + (y - h / 2)\<^sup>2)
               * (normalized_distance w h x y * 10 / sqrt (r / 20))) H))"
      by (simp only: mv) simp
    show "sqrt (((x - w / 2) / sqrt ((x - w / 2)\<^sup>2 + (y - h / 2)\<^sup>2)
                   * (normalized_distance w h x y * 10 / sqrt (r / 20)))\<^sup>2
              + ((y - h / 2) / sqrt ((x - w / 2)\<^sup>2 + (y - h / 2)\<^sup>2)
                   * (normalized_distance w h x y * 10 / sqrt (r / 20)))\<^sup>2)
          = normalized_distance w h x y * 10 / sqrt (r / 20)"
      by (rule norm)
    show "Fin (normalized_distance w h x y * 10 / sqrt (r / 20)) = velocityMagnitude"
      if "r = 20 \<and> normalized_distance w h x y = 1"
      using that by (simp add: velocityMagnitude_def)
  qed
qed

theorem moveTowards_speed_witness:
  "pos_x example_player = Fin 100 \<and> pos_y example_player = Fin 100 \<and> radius example_player = Fin 20 \<and> (0::real) < 20
   \<and> worldBounds example_player = \<lparr>width = Fin 10000, height = Fin 10000\<rparr>
   \<and> 3 < sqrt ((550 - 800 / 2)\<^sup>2 + (500 - 600 / 2)\<^sup>2 :: real)
   \<and> pos_x (moveTowards example_player \<lparr>width = Fin 800, height = Fin 600\<rparr> (Fin 550) (Fin 500)) = Fin 106
   \<and> pos_y (moveTowards example_player \<lparr>width = Fin 800, height = Fin 600\<rparr> (Fin 550) (Fin 500)) = Fin 108
   \<and> sqrt ((6::real)\<^sup>2 + 8\<^sup>2) = 10
   \<and> Fin 10 = velocityMagnitude"
proof -
  have d: "3 < sqrt ((550 - 800 / 2)\<^sup>2 + (500 - 600 / 2)\<^sup>2 :: real)"
    by (simp add: sqrt_62500)
  from d moveTowards_speed [of example_player 100 100 20 10000 10000 550 800 500 600]
  show ?thesis by (simp add: Let_def sqrt_62500 sqrt_250000)
qed

section \<open>Camera: target zoom and smoothing\<close>

lemma clamp_refines:
  assumes "lo \<le> hi"
  shows "Math_max (Fin lo) (Math_min (Fin hi) v) = spec_clamp v (Fin lo) (Fin hi)"
  using assms by (cases v) (auto simp: spec_clamp_def ngt_def min_def max_def)

lemma zoom_small:
  assumes "1 < a" "a < 80"
  shows "zoom (Fin a) = Fin (max 0.1 (min 1 (50 / ln a)))"
  using assms by (simp add: zoom_def)

lemma zoom_large:
  assumes "80 < a"
  shows "zoom (Fin a) = Fin (max 0.1 (min 1 (100 / (a - 80))))"
  using assms by (simp add: zoom_def)

lemma clamp_mono:
  fixes u v :: real
  assumes "u \<le> v"
  shows "max lo (min hi u) \<le> max lo (min hi v)"
  using assms unfolding max_def min_def by auto

lemma zoom_small_mono:
  assumes "1 < a" "a \<le> b" "b < 80"
  shows "nle (zoom (Fin b)) (zoom (Fin a))"
proof -
  have "0 < ln a" "ln a \<le> ln b"
    using assms by simp_all
  then have "50 / ln b \<le> 50 / ln a"
    by (simp add: frac_le)
  then have "max 0.1 (min 1 (50 / ln b)) \<le> max 0.1 (min 1 (50 / ln a))"
    by (rule clamp_mono)
  with assms show ?thesis
    by (simp only: zoom_small [of a] zoom_small [of b] nle.simps) 
qed

lemma zoom_large_mono:
  assumes "80 < a" "a \<le> b"
  shows "nle (zoom (Fin b)) (zoom (Fin a))"
proof -
  have "100 / (b - 80) \<le> 100 / (a - 80)"
    using assms by (simp add: frac_le)
  then have "max 0.1 (min 1 (100 / (b - 80))) \<le> max 0.1 (min 1 (100 / (a - 80)))"
    by (rule clamp_mono)
  with assms show ?thesis
    by (simp add: zoom_large)
qed

text \<open>
  Claim C8. The target zoom of the game loop is the specification's
  \<open>clamp (50 / ln radius) 0.1 1\<close> when \<open>radius < 80\<close> and \<open>clamp (100 / (radius - 80)) 0.1 1\<close>
  otherwise, in the program's arithmetic for every radius and over the reals for a
  radius in (1, 80) or above 80; and it is non-increasing in the radius on (1, 80) and
  on (80, infinity).
\<close>

theorem zoom_target:
  "zoom r = (if nlt r (Fin 80)
             then spec_clamp (ndiv (Fin 50) (Math_log r)) (Fin 0.1) (Fin 1)
             else spec_clamp (ndiv (Fin 100) (nsub r (Fin 80))) (Fin 0.1) (Fin 1))
   \<and> (1 < a \<and> a < 80 \<longrightarrow> zoom (Fin a) = Fin (max 0.1 (min 1 (50 / ln a))))
   \<and> (80 < a \<longrightarrow> zoom (Fin a) = Fin (max 0.1 (min 1 (100 / (a - 80)))))
   \<and> (1 < a \<and> a \<le> b \<and> b < 80 \<longrightarrow> nle (zoom (Fin b)) (zoom (Fin a)))
   \<and> (80 < a \<and> a \<le> b \<longrightarrow> nle (zoom (Fin b)) (zoom (Fin a)))"
proof (intro conjI impI)
  show "zoom r = (if nlt r (Fin 80)
             then spec_clamp (ndiv (Fin 50) (Math_log r)) (Fin 0.1) (Fin 1)
             else spec_clamp (ndiv (Fin 100) (nsub r (Fin 80))) (Fin 0.1) (Fin 1))"
    by (simp add: zoom_def clamp_refines)
  show "zoom (Fin a) = Fin (max 0.1 (min 1 (50 / ln a)))" if "1 < a \<and> a < 80"
    using that zoom_small by blast
  show "zoom (Fin a) = Fin (max 0.1 (min 1 (100 / (a - 80))))" if "80 < a"
    using that by (rule zoom_large)
  show "nle (zoom (Fin b)) (zoom (Fin a))" if "1 < a \<and> a \<le> b \<and> b < 80"
    using that zoom_small_mono by blast
  show "nle (zoom (Fin b)) (zoom (Fin a))" if "80 < a \<and> a \<le> b"
    using that zoom_large_mono by blast
qed

theorem zoom_target_witness:
  "(1::real) < 10 \<and> (10::real) \<le> 20 \<and> (20::real) < 80
   \<and> nle (zoom (Fin 20)) (zoom (Fin 10))
   \<and> (80::real) < 180 \<and> (180::real) \<le> 280
   \<and> zoom (Fin 180) = Fin 1 \<and> zoom (Fin 280) = Fin 0.5
   \<and> nle (zoom (Fin 280)) (zoom (Fin 180))"
proof -
  have h1: "(1::real) < 10 \<and> (10::real) \<le> 20 \<and> (20::real) < 80"
    and h2: "(80::real) < 180 \<and> (180::real) \<le> 280"
    and h3: "(80::real) < 180" and h4: "(80::real) < 280"
    by simp_all
  from zoom_target [of "Fin 10" 10 20] h1
  have a: "nle (zoom (Fin 20)) (zoom (Fin 10))" by blast
  from zoom_target [of "Fin 180" 180 280] h2
  have b: "nle (zoom (Fin 280)) (zoom (Fin 180))" by blast
  from zoom_target [of "Fin 180" 180 180] h3
  have c: "zoom (Fin 180) = Fin (max 0.1 (min 1 (100 / (180 - 80))))" by blast
  from zoom_target [of "Fin 280" 280 280] h4
  have d: "zoom (Fin 280) = Fin (max 0.1 (min 1 (100 / (280 - 80))))" by blast
  have c': "zoom (Fin 180) = Fin 1" unfolding c by simp
  have d': "zoom (Fin 280) = Fin 0.5" unfolding d by simp
  from h1 h2 a b c' d' show ?thesis by blast
qed

lemma lerp_Fin: "lerp (Fin v) (Fin T) (Fin t) = Fin (v * (1 - t) + T * t)"
  by (simp add: lerp_def)

lemma lerp_iter:
  "((\<lambda>u. lerp u (Fin T) (Fin 0.05)) ^^ n) (Fin v) = Fin (T + 0.95 ^ n * (v - T))"
proof (induction n)
  case 0
  show ?case by simp
next
  case (Suc n)
  then show ?case
    by (simp add: lerp_Fin field_simps)
qed

lemma geometric_error_tendsto:
  "(\<lambda>n. T + 0.95 ^ n * (v - T)) \<longlonglongrightarrow> (T::real)"
proof -
  have "(\<lambda>n. (0.95::real) ^ n) \<longlonglongrightarrow> 0"
    using LIMSEQ_realpow_zero [of "0.95::real"] by simp
  then have "(\<lambda>n. 0.95 ^ n * (v - T)) \<longlonglongrightarrow> 0 * (v - T)"
    by (rule tendsto_mult_right)
  from tendsto_add [OF tendsto_const this, of T]
  show ?thesis by simp
qed

text \<open>
  Claim C9. \<open>lerp value target 0.05\<close> is \<open>value * 0.95 + target * 0.05\<close>; applied again
  and again with a fixed target, it gives a sequence whose distance to the target is
  multiplied by exactly 0.95 at each step and which converges to the target (finite
  values, taken as reals). The game loop applies this step to both scale factors of the
  world, with the target zoom of the player's radius after the scans, and to both
  coordinates of the world's position, with the pan target at the new scale.
\<close>

theorem lerp_smoothing:
  "lerp (Fin v) (Fin T) (Fin 0.05) = Fin (v * 0.95 + T * 0.05)
   \<and> (\<exists>f. (\<forall>n. ((\<lambda>u. lerp u (Fin T) (Fin 0.05)) ^^ n) (Fin v) = Fin (f n))
          \<and> f 0 = v
          \<and> (\<forall>n. \<bar>f (Suc n) - T\<bar> = 0.95 * \<bar>f n - T\<bar>)
          \<and> f \<longlonglongrightarrow> T)
   \<and> scale_x (world (tick FOOD_RADIUS canEatPlayer screen pointer_x pointer_y g))
       = lerp (scale_x (world g))
           (zoom (radius (player (tick FOOD_RADIUS canEatPlayer screen pointer_x pointer_y g))))
           (Fin 0.05)
   \<and> scale_y (world (tick FOOD_RADIUS canEatPlayer screen pointer_x pointer_y g))
       = lerp (scale_y (world g))
           (zoom (radius (player (tick FOOD_RADIUS canEatPlayer screen pointer_x pointer_y g))))
           (Fin 0.05)
   \<and> position_x (world (tick FOOD_RADIUS canEatPlayer screen pointer_x pointer_y g))
       = lerp (position_x (world g))
           (nsub (ndiv (width screen) (Fin 2))
              (nmul (pos_x (player (tick FOOD_RADIUS canEatPlayer screen pointer_x pointer_y g)))
                    (scale_x (world (tick FOOD_RADIUS canEatPlayer screen pointer_x pointer_y g)))))
           (Fin 0.05)
   \<and> position_y (world (tick FOOD_RADIUS canEatPlayer screen pointer_x pointer_y g))
       = lerp (position_y (world g))
           (nsub (ndiv (height screen) (Fin 2))
              (nmul (pos_y (player (tick FOOD_RADIUS canEatPlayer screen pointer_x pointer_y g)))
                    (scale_y (world (tick FOOD_RADIUS canEatPlayer screen pointer_x pointer_y g)))))
           (Fin 0.05)"
proof (intro conjI)
  show "lerp (Fin v) (Fin T) (Fin 0.05) = Fin (v * 0.95 + T * 0.05)"
    by (simp add: lerp_Fin)
  show "\<exists>f. (\<forall>n. ((\<lambda>u. lerp u (Fin T) (Fin 0.05)) ^^ n) (Fin v) = Fin (f n))
          \<and> f 0 = v
          \<and> (\<forall>n. \<bar>f (Suc n) - T\<bar> = 0.95 * \<bar>f n - T\<bar>)
          \<and> f \<longlonglongrightarrow> T"
  proof (intro exI [of _ "\<lambda>n. T + 0.95 ^ n * (v - T)"] conjI allI)
    fix n
    show "((\<lambda>u. lerp u (Fin T) (Fin 0.05)) ^^ n) (Fin v) = Fin (T + 0.95 ^ n * (v - T))"
      by (rule lerp_iter)
    show "\<bar>T + 0.95 ^ Suc n * (v - T) - T\<bar> = 0.95 * \<bar>T + 0.95 ^ n * (v - T) - T\<bar>"
      by (simp add: abs_mult)
  next
    show "T + 0.95 ^ 0 * (v - T) = v" by simp
    show "(\<lambda>n. T + 0.95 ^ n * (v - T)) \<longlonglongrightarrow> T"
      by (rule geometric_error_tendsto)
  qed
  show "scale_x (world (tick FOOD_RADIUS canEatPlayer screen pointer_x pointer_y g))
       = lerp (scale_x (world g))
           (zoom (radius (player (tick FOOD_RADIUS canEatPlayer screen pointer_x pointer_y g))))
           (Fin 0.05)"
    by (simp add: tick_def Let_def split: prod.splits)
  show "scale_y (world (tick FOOD_RADIUS canEatPlayer screen pointer_x pointer_y g))
       = lerp (scale_y (world g))
           (zoom (radius (player (tick FOOD_RADIUS canEatPlayer screen pointer_x pointer_y g))))
           (Fin 0.05)"
    by (simp add: tick_def Let_def split: prod.splits)
  show "position_x (world (tick FOOD_RADIUS canEatPlayer screen pointer_x pointer_y g))
       = lerp (position_x (world g))
           (nsub (ndiv (width screen) (Fin 2))
              (nmul (pos_x (player (tick FOOD_RADIUS canEatPlayer screen pointer_x pointer_y g)))
                    (scale_x (world (tick FOOD_RADIUS canEatPlayer screen pointer_x pointer_y g)))))
           (Fin 0.05)"
    by (simp add: tick_def Let_def split: prod.splits)
  show "position_y (world (tick FOOD_RADIUS canEatPlayer screen pointer_x pointer_y g))
       = lerp (position_y (world g))
           (nsub (ndiv (height screen) (Fin 2))
              (nmul (pos_y (player (tick FOOD_RADIUS canEatPlayer screen pointer_x pointer_y g)))
                    (scale_y (world (tick FOOD_RADIUS canEatPlayer screen pointer_x pointer_y g)))))
           (Fin 0.05)"
    by (simp add: tick_def Let_def split: prod.splits)
qed

section \<open>Game loop: scans and intents\<close>

lemma tick_blocks:
  "player (tick F c screen x y g) = fst (fst (after_players F c screen x y g))"
  "sent (network (tick F c screen x y g)) = snd (fst (after_players F c screen x y g))"
  "foods (network (tick F c screen x y g)) = snd (after_foods F screen x y g)"
  "players (network (tick F c screen x y g)) = snd (after_players F c screen x y g)"
  "connected (network (tick F c screen x y g)) = connected (network g)"
  by (simp_all add: tick_def after_players_def after_foods_def after_movement_def Let_def
      split: prod.splits)

text \<open>Facts about \<open>forEach\<close>: the element and the state at an index.\<close>

lemma forEach_Cons:
  "forEach cb s (e # es) =
     (fst (forEach cb (fst (cb s e)) es), snd (cb s e) # snd (forEach cb (fst (cb s e)) es))"
  by (simp split: prod.splits)

lemma forEach_length: "length (snd (forEach cb s xs)) = length xs"
  by (induction xs arbitrary: s) (simp_all add: forEach_Cons del: forEach.simps(2))

lemma forEach_append:
  "forEach cb s (xs @ ys) =
     (fst (forEach cb (fst (forEach cb s xs)) ys),
      snd (forEach cb s xs) @ snd (forEach cb (fst (forEach cb s xs)) ys))"
  by (induction xs arbitrary: s) (simp_all add: forEach_Cons del: forEach.simps(2))

lemma forEach_nth:
  assumes "i < length xs"
  shows "snd (forEach cb s xs) ! i = snd (cb (fst (forEach cb s (take i xs))) (xs ! i))"
  using assms
proof (induction xs arbitrary: s i)
  case Nil
  then show ?case by simp
next
  case (Cons e es)
  show ?case
  proof (cases i)
    case 0
    then show ?thesis by (simp add: forEach_Cons del: forEach.simps(2))
  next
    case (Suc j)
    with Cons.prems have "j < length es" by simp
    from Cons.IH [OF this] Suc show ?thesis
      by (simp add: forEach_Cons del: forEach.simps(2))
  qed
qed

lemma forEach_take_Suc:
  assumes "i < length xs"
  shows "fst (forEach cb s (take (Suc i) xs)) = fst (cb (fst (forEach cb s (take i xs))) (xs ! i))"
proof -
  have "take (Suc i) xs = take i xs @ [xs ! i]"
    using assms by (simp add: take_Suc_conv_app_nth)
  then show ?thesis
    by (simp add: forEach_append forEach_Cons del: forEach.simps(2))
qed

text \<open>Facts about the two callbacks and the scans they make.\<close>

lemma players_callback_colliding:
  assumes "canEatPlayer pl p"
  shows "players_callback canEatPlayer (pl, out) p =
     (case player_id p of
        None \<Rightarrow> ((pl, out), destroy p)
      | Some i \<Rightarrow> ((fst (eatPlayer pl p), out @ [SendEatPlayer i (radius pl)]), destroy p))"
  using assms by (simp add: players_callback_def eatPlayer_def destroy_def split: option.splits)

lemma players_callback_quiet:
  "pos_x (fst (fst (players_callback c s p))) = pos_x (fst s)"
  "pos_y (fst (fst (players_callback c s p))) = pos_y (fst s)"
  "filter is_SendMovement (snd (fst (players_callback c s p))) = filter is_SendMovement (snd s)"
  by (simp_all add: players_callback_def eatPlayer_def split: prod.splits option.splits)

lemma foods_callback_quiet:
  "pos_x (fst (fst (foods_callback F s f))) = pos_x (fst s)"
  "pos_y (fst (fst (foods_callback F s f))) = pos_y (fst s)"
  "filter is_SendMovement (snd (fst (foods_callback F s f))) = filter is_SendMovement (snd s)"
  by (simp_all add: foods_callback_def eatFood_def split: prod.splits)

lemma forEach_foods_quiet:
  "pos_x (fst (fst (forEach (foods_callback F) s fs))) = pos_x (fst s)
   \<and> pos_y (fst (fst (forEach (foods_callback F) s fs))) = pos_y (fst s)
   \<and> filter is_SendMovement (snd (fst (forEach (foods_callback F) s fs)))
       = filter is_SendMovement (snd s)"
proof (induction fs arbitrary: s)
  case Nil
  show ?case by simp
next
  case (Cons f fs)
  from Cons.IH [of "fst (foods_callback F s f)"] foods_callback_quiet [of F s f]
  show ?case by (simp add: forEach_Cons del: forEach.simps(2))
qed

lemma forEach_players_quiet:
  "pos_x (fst (fst (forEach (players_callback c) s ps))) = pos_x (fst s)
   \<and> pos_y (fst (fst (forEach (players_callback c) s ps))) = pos_y (fst s)
   \<and> filter is_SendMovement (snd (fst (forEach (players_callback c) s ps)))
       = filter is_SendMovement (snd s)"
proof (induction ps arbitrary: s)
  case Nil
  show ?case by simp
next
  case (Cons p ps)
  from Cons.IH [of "fst (players_callback c s p)"] players_callback_quiet [of c s p]
  show ?case by (simp add: forEach_Cons del: forEach.simps(2))
qed

lemma canEatPlayer_spec_example:
  "canEatPlayer_spec example_player remote_without_id"
  "canEatPlayer_spec example_player remote_with_id"
  by (simp_all add: canEatPlayer_spec_def remote_without_id_def remote_with_id_def Let_def)

text \<open>
  Claim C10. In the scan of the remote players, for every predicate \<open>canEatPlayer\<close>: a
  player on which the predicate holds is destroyed; when its id is undefined the local
  player and the log are left as they were (no growth, no intent), and when its id is
  \<open>i\<close> the local player grows by \<open>eatPlayer\<close> and \<open>sendEatPlayer i\<close> is logged; a player
  on which the predicate fails is left alone. The same holds at every index \<open>k\<close> of the
  collection, with the local player as the scan has made it up to \<open>k\<close>, and the players
  of the game after a tick are those this scan leaves.
\<close>

theorem colliding_player_scan:
  "(canEatPlayer pl p \<longrightarrow>
      destroyed (snd (players_callback canEatPlayer (pl, out) p))
      \<and> (player_id p = None \<longrightarrow>
           players_callback canEatPlayer (pl, out) p = ((pl, out), destroy p))
      \<and> (\<forall>i. player_id p = Some i \<longrightarrow>
           players_callback canEatPlayer (pl, out) p
             = ((fst (eatPlayer pl p), out @ [SendEatPlayer i (radius pl)]), destroy p)))
   \<and> (\<not> canEatPlayer pl p \<longrightarrow> players_callback canEatPlayer (pl, out) p = ((pl, out), p))
   \<and> (k < length ps \<and> canEatPlayer (fst (fst (forEach (players_callback canEatPlayer) st (take k ps)))) (ps ! k) \<longrightarrow>
        destroyed (snd (forEach (players_callback canEatPlayer) st ps) ! k)
        \<and> (player_id (ps ! k) = None \<longrightarrow>
             fst (forEach (players_callback canEatPlayer) st (take (Suc k) ps))
               = fst (forEach (players_callback canEatPlayer) st (take k ps))))
   \<and> players (network (tick F canEatPlayer screen x y g))
       = snd (forEach (players_callback canEatPlayer) (fst (after_foods F screen x y g))
                (players (network g)))"
proof (intro conjI impI allI)
  assume c: "canEatPlayer pl p"
  show "destroyed (snd (players_callback canEatPlayer (pl, out) p))"
    using c by (simp add: players_callback_colliding [of canEatPlayer pl p] destroy_def split: option.splits)
  show "players_callback canEatPlayer (pl, out) p = ((pl, out), destroy p)"
    if "player_id p = None"
    using that c by (simp add: players_callback_colliding [of canEatPlayer pl p])
  show "players_callback canEatPlayer (pl, out) p
          = ((fst (eatPlayer pl p), out @ [SendEatPlayer i (radius pl)]), destroy p)"
    if "player_id p = Some i" for i
    using that c by (simp add: players_callback_colliding [of canEatPlayer pl p])
next
  assume "\<not> canEatPlayer pl p"
  then show "players_callback canEatPlayer (pl, out) p = ((pl, out), p)"
    by (simp add: players_callback_def)
next
  assume a: "k < length ps \<and> canEatPlayer (fst (fst (forEach (players_callback canEatPlayer) st (take k ps)))) (ps ! k)"
  define s where "s = fst (forEach (players_callback canEatPlayer) st (take k ps))"
  from a have k: "k < length ps" and c: "canEatPlayer (fst s) (ps ! k)"
    by (simp_all add: s_def)
  have step: "players_callback canEatPlayer s (ps ! k) =
     (case player_id (ps ! k) of
        None \<Rightarrow> (s, destroy (ps ! k))
      | Some i \<Rightarrow> ((fst (eatPlayer (fst s) (ps ! k)), snd s @ [SendEatPlayer i (radius (fst s))]),
                   destroy (ps ! k)))"
    using players_callback_colliding [of canEatPlayer "fst s" "ps ! k" "snd s"] c
    by (simp split: option.splits)
  show "destroyed (snd (forEach (players_callback canEatPlayer) st ps) ! k)"
    by (simp add: forEach_nth [OF k] s_def [symmetric] step destroy_def split: option.splits)
  show "fst (forEach (players_callback canEatPlayer) st (take (Suc k) ps))
               = fst (forEach (players_callback canEatPlayer) st (take k ps))"
    if "player_id (ps ! k) = None"
    using that by (simp add: forEach_take_Suc [OF k] s_def [symmetric] step)
next
  show "players (network (tick F canEatPlayer screen x y g))
       = snd (forEach (players_callback canEatPlayer) (fst (after_foods F screen x y g))
                (players (network g)))"
    by (simp add: tick_blocks after_players_def)
qed

theorem colliding_player_scan_witness:
  "canEatPlayer_spec example_player remote_without_id
   \<and> player_id remote_without_id = None
   \<and> destroyed (snd (players_callback canEatPlayer_spec (example_player, []) remote_without_id))
   \<and> players_callback canEatPlayer_spec (example_player, []) remote_without_id
       = ((example_player, []), destroy remote_without_id)
   \<and> canEatPlayer_spec example_player remote_with_id
   \<and> player_id remote_with_id = Some [1, 2, 3]
   \<and> players_callback canEatPlayer_spec (example_player, []) remote_with_id
       = ((example_player\<lparr>radius := Fin 25\<rparr>, [SendEatPlayer [1, 2, 3] (Fin 20)]),
          destroy remote_with_id)
   \<and> \<not> canEatPlayer_spec example_player (destroy remote_with_id)
   \<and> players_callback canEatPlayer_spec (example_player, []) (destroy remote_with_id)
       = ((example_player, []), destroy remote_with_id)
   \<and> (0::nat) < length [remote_without_id, remote_with_id]
   \<and> destroyed (snd (forEach (players_callback canEatPlayer_spec) (example_player, [])
                       [remote_without_id, remote_with_id]) ! 0)
   \<and> fst (forEach (players_callback canEatPlayer_spec) (example_player, []) [remote_without_id])
       = (example_player, [])"
proof -
  have n: "player_id remote_without_id = None"
    and i: "player_id remote_with_id = Some [1, 2, 3]"
    by (simp_all add: remote_without_id_def remote_with_id_def)
  have e: "fst (eatPlayer example_player remote_with_id) = example_player\<lparr>radius := Fin 25\<rparr>"
    by (simp add: eatPlayer_def remote_with_id_def sqrt_625)
  have d: "\<not> canEatPlayer_spec example_player (destroy remote_with_id)"
    by (simp add: canEatPlayer_spec_def destroy_def)
  from colliding_player_scan [of canEatPlayer_spec example_player remote_without_id "[]"]
    canEatPlayer_spec_example(1) n
  have a: "destroyed (snd (players_callback canEatPlayer_spec (example_player, []) remote_without_id))
      \<and> players_callback canEatPlayer_spec (example_player, []) remote_without_id
       = ((example_player, []), destroy remote_without_id)"
    by blast
  from colliding_player_scan [of canEatPlayer_spec example_player remote_with_id "[]"]
    canEatPlayer_spec_example(2) i
  have "players_callback canEatPlayer_spec (example_player, []) remote_with_id
       = ((fst (eatPlayer example_player remote_with_id),
           [] @ [SendEatPlayer [1, 2, 3] (radius example_player)]), destroy remote_with_id)"
    by blast
  then have b: "players_callback canEatPlayer_spec (example_player, []) remote_with_id
       = ((example_player\<lparr>radius := Fin 25\<rparr>, [SendEatPlayer [1, 2, 3] (Fin 20)]),
          destroy remote_with_id)"
    by (simp add: e)
  from colliding_player_scan [of canEatPlayer_spec example_player "destroy remote_with_id" "[]"] d
  have c: "players_callback canEatPlayer_spec (example_player, []) (destroy remote_with_id)
       = ((example_player, []), destroy remote_with_id)"
    by blast
  have k: "(0::nat) < length [remote_without_id, remote_with_id]"
    by simp
  have k': "canEatPlayer_spec
      (fst (fst (forEach (players_callback canEatPlayer_spec) (example_player, [])
                   (take 0 [remote_without_id, remote_with_id]))))
      ([remote_without_id, remote_with_id] ! 0)"
    using canEatPlayer_spec_example(1) by simp
  have n': "player_id ([remote_without_id, remote_with_id] ! 0) = None"
    using n by simp
  from colliding_player_scan [where canEatPlayer = canEatPlayer_spec and k = 0
      and ps = "[remote_without_id, remote_with_id]" and st = "(example_player, [])"] k k' n'
  have "destroyed (snd (forEach (players_callback canEatPlayer_spec) (example_player, [])
                       [remote_without_id, remote_with_id]) ! 0)
     \<and> fst (forEach (players_callback canEatPlayer_spec) (example_player, [])
              (take (Suc 0) [remote_without_id, remote_with_id]))
       = fst (forEach (players_callback canEatPlayer_spec) (example_player, [])
              (take 0 [remote_without_id, remote_with_id]))"
    by blast
  then have l: "destroyed (snd (forEach (players_callback canEatPlayer_spec) (example_player, [])
                       [remote_without_id, remote_with_id]) ! 0)
     \<and> fst (forEach (players_callback canEatPlayer_spec) (example_player, []) [remote_without_id])
       = (example_player, [])"
    by (simp del: forEach.simps(2))
  from a b c d k l n i canEatPlayer_spec_example show ?thesis by blast
qed

text \<open>
  Claim C4 does not hold of the program: the loop calls \<open>sendEatPlayer\<close> before
  \<open>eatPlayer\<close>, so the intent carries the radius before the growth. In a connected game
  whose local player, of radius 20, covers a remote player of radius 15 with id
  \<open>[1, 2, 3]\<close>, the tick logs \<open>sendEatPlayer [1, 2, 3] 20\<close> and leaves the local player with
  radius 25. (The scan of the foods grows first and logs the new radius.)
\<close>

theorem eat_player_intent_carries_old_radius:
  "sent (network (tick (Fin 5) canEatPlayer_spec \<lparr>width = Fin 800, height = Fin 600\<rparr>
                    (Fin 400) (Fin 300) online_game))
     = [SendMovement (Fin 100) (Fin 100), SendEatPlayer [1, 2, 3] (Fin 20)]
   \<and> radius (player (tick (Fin 5) canEatPlayer_spec \<lparr>width = Fin 800, height = Fin 600\<rparr>
                    (Fin 400) (Fin 300) online_game)) = Fin 25"
proof -
  have m: "after_movement \<lparr>width = Fin 800, height = Fin 600\<rparr> (Fin 400) (Fin 300) online_game
           = (example_player, [SendMovement (Fin 100) (Fin 100)])"
    by (simp add: after_movement_def online_game_def moveTowards_alt delta_Fin Let_def)
  have p: "players_callback canEatPlayer_spec (example_player, [SendMovement (Fin 100) (Fin 100)])
             remote_with_id
           = ((example_player\<lparr>radius := Fin 25\<rparr>,
               [SendMovement (Fin 100) (Fin 100), SendEatPlayer [1, 2, 3] (Fin 20)]),
              destroy remote_with_id)"
  proof -
    have i: "player_id remote_with_id = Some [1, 2, 3]"
      by (simp add: remote_with_id_def)
    have e: "fst (eatPlayer example_player remote_with_id) = example_player\<lparr>radius := Fin 25\<rparr>"
      by (simp add: eatPlayer_def remote_with_id_def sqrt_625)
    from canEatPlayer_spec_example(2) show ?thesis
      by (simp add: players_callback_colliding [of canEatPlayer_spec example_player remote_with_id]
          i e)
  qed
  show ?thesis
    unfolding tick_blocks after_players_def after_foods_def m
    by (simp add: online_game_def p)
qed

lemma offline_food_step:
  "foods_callback (Fin 5) (example_player\<lparr>radius := Fin 12\<rparr>, [])
     \<lparr>pos_x = Fin 100, pos_y = Fin 100, destroyed = False\<rparr>
   = ((example_player\<lparr>radius := Fin 13.026\<rparr>, [SendEatFood (Fin 100) (Fin 100) (Fin 13)]),
      \<lparr>pos_x = Fin 100, pos_y = Fin 100, destroyed = True\<rparr>)"
proof -
  have c: "canEatFood (example_player\<lparr>radius := Fin 12\<rparr>)
             \<lparr>pos_x = Fin 100, pos_y = Fin 100, destroyed = False\<rparr>"
    by (simp add: canEatFood_def Let_def)
  show ?thesis
    by (simp add: foods_callback_def c eatFood_def destroy_def sqrt_169)
qed

text \<open>
  Claim C2, as amended. When the network manager reports not connected, the tick does
  not call \<open>moveTowards\<close> and logs no \<open>sendMovement\<close>: the position of the local player is
  unchanged. The two scans still run, from the unmoved player: the foods, the players,
  the local player and the log after the tick are those the scans leave.
\<close>

theorem offline_tick:
  assumes "\<not> connected (network g)"
  shows "after_movement screen x y g = (player g, sent (network g))
     \<and> pos_x (player (tick F c screen x y g)) = pos_x (player g)
     \<and> pos_y (player (tick F c screen x y g)) = pos_y (player g)
     \<and> filter is_SendMovement (sent (network (tick F c screen x y g)))
         = filter is_SendMovement (sent (network g))
     \<and> foods (network (tick F c screen x y g))
         = snd (forEach (foods_callback F) (player g, sent (network g)) (foods (network g)))
     \<and> ((player (tick F c screen x y g), sent (network (tick F c screen x y g))),
         players (network (tick F c screen x y g)))
         = forEach (players_callback c)
             (fst (forEach (foods_callback F) (player g, sent (network g)) (foods (network g))))
             (players (network g))"
proof -
  have m: "after_movement screen x y g = (player g, sent (network g))"
    using assms by (simp add: after_movement_def)
  note f = forEach_foods_quiet [of F "(player g, sent (network g))" "foods (network g)"]
  note p = forEach_players_quiet [of c
      "fst (forEach (foods_callback F) (player g, sent (network g)) (foods (network g)))"
      "players (network g)"]
  from f p show ?thesis
    by (simp add: tick_blocks after_players_def after_foods_def m)
qed

theorem offline_tick_witness:
  "\<not> connected (network offline_game)
   \<and> pos_x (player (tick (Fin 5) canEatPlayer_spec \<lparr>width = Fin 800, height = Fin 600\<rparr>
                    (Fin 550) (Fin 500) offline_game)) = Fin 100
   \<and> pos_y (player (tick (Fin 5) canEatPlayer_spec \<lparr>width = Fin 800, height = Fin 600\<rparr>
                    (Fin 550) (Fin 500) offline_game)) = Fin 100
   \<and> filter is_SendMovement (sent (network (tick (Fin 5) canEatPlayer_spec
           \<lparr>width = Fin 800, height = Fin 600\<rparr> (Fin 550) (Fin 500) offline_game))) = []
   \<and> foods (network (tick (Fin 5) canEatPlayer_spec \<lparr>width = Fin 800, height = Fin 600\<rparr>
                    (Fin 550) (Fin 500) offline_game))
       = [\<lparr>pos_x = Fin 100, pos_y = Fin 100, destroyed = True\<rparr>]"
proof -
  have h: "\<not> connected (network offline_game)"
    by (simp add: offline_game_def)
  from offline_tick [OF h, of "\<lparr>width = Fin 800, height = Fin 600\<rparr>" "Fin 550" "Fin 500"
      "Fin 5" canEatPlayer_spec] h
  show ?thesis by (simp add: offline_game_def offline_food_step)
qed

text \<open>
  Claim C2 as stated fails: in a game that is not connected, a local player of radius
  12 covering one food, with \<open>FOOD_RADIUS\<close> 5, the tick destroys the food, grows the
  player to \<open>13 * 1.002 = 13.026\<close> and logs \<open>sendEatFood (100, 100) 13\<close>.
\<close>

theorem offline_tick_consumes_counterexample:
  "\<not> connected (network offline_game)
   \<and> sent (network (tick (Fin 5) canEatPlayer_spec \<lparr>width = Fin 800, height = Fin 600\<rparr>
                    (Fin 400) (Fin 300) offline_game))
       = [SendEatFood (Fin 100) (Fin 100) (Fin 13)]
   \<and> foods (network (tick (Fin 5) canEatPlayer_spec \<lparr>width = Fin 800, height = Fin 600\<rparr>
                    (Fin 400) (Fin 300) offline_game))
       = [\<lparr>pos_x = Fin 100, pos_y = Fin 100, destroyed = True\<rparr>]
   \<and> radius (player (tick (Fin 5) canEatPlayer_spec \<lparr>width = Fin 800, height = Fin 600\<rparr>
                    (Fin 400) (Fin 300) offline_game)) = Fin 13.026"
proof -
  have m: "after_movement \<lparr>width = Fin 800, height = Fin 600\<rparr> (Fin 400) (Fin 300) offline_game
           = (example_player\<lparr>radius := Fin 12\<rparr>, [])"
    by (simp add: after_movement_def offline_game_def)
  show ?thesis
    unfolding tick_blocks after_players_def after_foods_def m
    by (simp add: offline_game_def offline_food_step)
qed

end
